theory Spec2Isabelle
  imports Main
begin

section \<open>The environment of \<open>pypeliner/resources.py\<close>\<close>

text \<open>
  The resource classes act on a filesystem through \<open>os\<close>, \<open>shutil\<close>, \<open>pickle\<close>,
  \<open>logging\<close>, \<open>pypeliner.helpers\<close> and \<open>pypeliner.fstatcache\<close>. All of it is
  one explicit \<open>world\<close> that every operation takes and returns. An operation
  that raises still returns the world it left behind: Python does not undo the effects
  that happened before the exception.
\<close>

type_synonym path = string
type_synonym timestamp = nat

record osfile =
  content :: string
  mtime :: timestamp

text \<open>Every call that changes the world or writes a log line is appended to a trace.\<close>

datatype event =
    Invalidate path
  | Rename path path
  | Remove path
  | Saferemove path
  | Touch path
  | Copystat path path
  | Dump path
  | Debug string

text \<open>
  \<open>unreadable\<close> holds the paths whose file the process may not open for reading
  (\<open>open\<close> fails with errno 13). \<open>cache\<close> is the state of
  \<open>pypeliner.fstatcache\<close>: \<open>None\<close> is no entry, \<open>Some None\<close> a remembered
  absence, \<open>Some (Some t)\<close> a remembered file with modification time \<open>t\<close>.
  \<open>rename_errno src dst\<close> is the errno with which the operating system refuses to
  rename an existing \<open>src\<close> to \<open>dst\<close> (2 for a missing target directory, 18 across
  devices, 21 for a directory at the target), or \<open>None\<close> when it performs the rename.
\<close>

record world =
  fs :: "path \<rightharpoonup> osfile"
  unreadable :: "path set"
  rename_errno :: "path \<Rightarrow> path \<Rightarrow> nat option"
  cache :: "path \<rightharpoonup> timestamp option"
  clock :: timestamp
  trace :: "event list"

datatype exn =
    OutputMissingException path
  | Exception string
  | ValueError string
  | KeyError string
  | IndexError
  | OSError nat
  | IOError nat
  | UnpicklingError

type_synonym 'a result = "(exn + 'a) \<times> world"

definition ENOENT :: nat where
  "ENOENT = 2"

definition EACCES :: nat where
  "EACCES = 13"

definition emit :: "event \<Rightarrow> world \<Rightarrow> world" where
  "emit e w = w\<lparr>trace := trace w @ [e]\<rparr>"

definition stat :: "world \<Rightarrow> path \<Rightarrow> timestamp option" where
  "stat w p = map_option mtime (fs w p)"

subsection \<open>\<open>os\<close>, \<open>shutil\<close> and \<open>logging\<close>\<close>

text \<open>
  \<open>os.rename(src, dst)\<close>: atomic. It fails with errno 2 when \<open>src\<close> is missing
  and with the errno of \<open>rename_errno\<close> when the operating system refuses the rename
  of an existing \<open>src\<close>; a failed rename changes no file. Otherwise \<open>dst\<close> becomes
  the file that \<open>src\<close> was (content and times) and \<open>src\<close> is gone. Renaming a file
  onto itself does nothing.
\<close>

definition os_rename :: "path \<Rightarrow> path \<Rightarrow> world \<Rightarrow> unit result" where
  "os_rename src dst w =
     (let w1 = emit (Rename src dst) w in
      case fs w1 src of
        None \<Rightarrow> (Inl (OSError ENOENT), w1)
      | Some f \<Rightarrow>
          (case rename_errno w1 src dst of
             Some n \<Rightarrow> (Inl (OSError n), w1)
           | None \<Rightarrow> (Inr (), w1\<lparr>fs := ((fs w1)(src := None))(dst \<mapsto> f)\<rparr>)))"

definition os_remove :: "path \<Rightarrow> world \<Rightarrow> unit result" where
  "os_remove p w =
     (let w1 = emit (Remove p) w in
      case fs w1 p of
        None \<Rightarrow> (Inl (OSError ENOENT), w1)
      | Some f \<Rightarrow> (Inr (), w1\<lparr>fs := (fs w1)(p := None)\<rparr>))"

text \<open>\<open>shutil.copystat(src, dst)\<close> puts the times of \<open>src\<close> on \<open>dst\<close>; both must exist.\<close>

definition shutil_copystat :: "path \<Rightarrow> path \<Rightarrow> world \<Rightarrow> unit result" where
  "shutil_copystat src dst w =
     (let w1 = emit (Copystat src dst) w in
      case fs w1 src of
        None \<Rightarrow> (Inl (OSError ENOENT), w1)
      | Some f \<Rightarrow>
          (case fs w1 dst of
             None \<Rightarrow> (Inl (OSError ENOENT), w1)
           | Some g \<Rightarrow> (Inr (), w1\<lparr>fs := (fs w1)(dst \<mapsto> g\<lparr>mtime := mtime f\<rparr>)\<rparr>)))"

definition logging_debug :: "string \<Rightarrow> world \<Rightarrow> world" where
  "logging_debug msg w = emit (Debug msg) w"

subsection \<open>\<open>pypeliner.helpers\<close>\<close>

text \<open>
  Modelled from the spec: \<open>pypeliner/helpers.py\<close> is not among the sources. The spec
  has \<open>touch\<close> mark a file as freshly confirmed without rewriting its content, and has
  the placeholder created or updated on every touch: \<open>touch\<close> creates an empty file when
  there is none and otherwise only sets the modification time to the current time.
\<close>

definition helpers_touch :: "path \<Rightarrow> world \<Rightarrow> world" where
  "helpers_touch p w =
     (let w1 = emit (Touch p) w in
      case fs w1 p of
        None \<Rightarrow> w1\<lparr>fs := (fs w1)(p \<mapsto> \<lparr>content = [], mtime = clock w1\<rparr>)\<rparr>
      | Some f \<Rightarrow> w1\<lparr>fs := (fs w1)(p \<mapsto> f\<lparr>mtime := clock w1\<rparr>)\<rparr>)"

text \<open>
  Modelled from the spec: \<open>pypeliner/helpers.py\<close> is not among the sources.
  \<open>saferemove\<close> deletes the file when there is one and does nothing otherwise.
\<close>

definition helpers_saferemove :: "path \<Rightarrow> world \<Rightarrow> world" where
  "helpers_saferemove p w =
     (let w1 = emit (Saferemove p) w in w1\<lparr>fs := (fs w1)(p := None)\<rparr>)"

subsection \<open>\<open>pypeliner.fstatcache\<close>\<close>

text \<open>
  Modelled from the spec: \<open>pypeliner/fstatcache.py\<close> is not among the sources. The
  spec (4.1 and the data model) gives one entry per filename holding the last observed
  (exists, mtime) snapshot, created lazily by the first query after an invalidation,
  never expiring, and removed by \<open>invalidate\<close>.
\<close>

definition invalidate_cached_state :: "path \<Rightarrow> world \<Rightarrow> world" where
  "invalidate_cached_state p w = (emit (Invalidate p) w)\<lparr>cache := (cache w)(p := None)\<rparr>"

definition snapshot :: "path \<Rightarrow> world \<Rightarrow> timestamp option \<times> world" where
  "snapshot p w =
     (case cache w p of
        Some s \<Rightarrow> (s, w)
      | None \<Rightarrow> (stat w p, w\<lparr>cache := (cache w)(p \<mapsto> stat w p)\<rparr>))"

definition get_exists :: "path \<Rightarrow> world \<Rightarrow> bool \<times> world" where
  "get_exists p w = (case snapshot p w of (s, w1) \<Rightarrow> (s \<noteq> None, w1))"

definition get_createtime :: "path \<Rightarrow> world \<Rightarrow> timestamp option \<times> world" where
  "get_createtime p w = snapshot p w"

text \<open>An entry is coherent when it is absent or agrees with the filesystem.\<close>

definition coherent :: "world \<Rightarrow> path \<Rightarrow> bool" where
  "coherent w p = (case cache w p of None \<Rightarrow> True | Some s \<Rightarrow> s = stat w p)"

section \<open>The resource classes\<close>

type_synonym node = "(string \<times> string) list"

record dependency =
  name :: string
  node :: node
  is_temp :: bool

record resource = dependency +
  filename :: path

subsection \<open>\<open>UserResource\<close>\<close>

definition UserResource_init :: "string \<Rightarrow> node \<Rightarrow> path \<Rightarrow> world \<Rightarrow> resource \<times> world" where
  "UserResource_init nm nd fname w =
     (\<lparr>name = nm, node = nd, is_temp = False, filename = fname\<rparr>,
      invalidate_cached_state fname w)"

definition UserResource_exists :: "resource \<Rightarrow> world \<Rightarrow> bool \<times> world" where
  "UserResource_exists self w = get_exists (filename self) w"

definition UserResource_createtime :: "resource \<Rightarrow> world \<Rightarrow> timestamp option \<times> world" where
  "UserResource_createtime self w = get_createtime (filename self) w"

definition UserResource_touch :: "resource \<Rightarrow> world \<Rightarrow> unit result" where
  "UserResource_touch self w =
     (case UserResource_exists self w of
        (False, w1) \<Rightarrow> (Inl (Exception ''cannot touch missing user output''), w1)
      | (True, w1) \<Rightarrow>
          (Inr (), helpers_touch (filename self) (invalidate_cached_state (filename self) w1)))"


subsection \<open>\<open>TempFileResource\<close>\<close>

record temp_file_resource = resource +
  placeholder_filename :: path

definition TempFileResource_init ::
  "string \<Rightarrow> node \<Rightarrow> path \<Rightarrow> world \<Rightarrow> temp_file_resource \<times> world" where
  "TempFileResource_init nm nd fname w =
     (\<lparr>name = nm, node = nd, is_temp = True, filename = fname,
       placeholder_filename = fname @ ''._placeholder''\<rparr>,
      invalidate_cached_state (fname @ ''._placeholder'') (invalidate_cached_state fname w))"

text \<open>
  \<open>_save_createtime\<close>: invalidate, \<open>saferemove\<close> and \<open>touch\<close> the placeholder, then
  \<open>copystat\<close> from the primary file, which raises when the primary is missing.
\<close>

definition TempFileResource_save_createtime :: "temp_file_resource \<Rightarrow> world \<Rightarrow> unit result" where
  "TempFileResource_save_createtime self w =
     shutil_copystat (filename self) (placeholder_filename self)
       (helpers_touch (placeholder_filename self)
          (helpers_saferemove (placeholder_filename self)
             (invalidate_cached_state (placeholder_filename self) w)))"

definition TempFileResource_exists :: "temp_file_resource \<Rightarrow> world \<Rightarrow> bool \<times> world" where
  "TempFileResource_exists self w = get_exists (filename self) w"

text \<open>\<open>createtime\<close> falls off its end, returning \<open>None\<close>, when neither file exists.\<close>

definition TempFileResource_createtime ::
  "temp_file_resource \<Rightarrow> world \<Rightarrow> timestamp option \<times> world" where
  "TempFileResource_createtime self w =
     (case get_exists (filename self) w of
        (True, w1) \<Rightarrow> get_createtime (filename self) w1
      | (False, w1) \<Rightarrow>
          (case get_exists (placeholder_filename self) w1 of
             (True, w2) \<Rightarrow> get_createtime (placeholder_filename self) w2
           | (False, w2) \<Rightarrow> (None, w2)))"

definition TempFileResource_touch :: "temp_file_resource \<Rightarrow> world \<Rightarrow> unit result" where
  "TempFileResource_touch self w =
     (case TempFileResource_exists self w of
        (True, w1) \<Rightarrow>
          TempFileResource_save_createtime self
            (helpers_touch (filename self) (invalidate_cached_state (filename self) w1))
      | (False, w1) \<Rightarrow>
          (Inr (), helpers_touch (placeholder_filename self)
                     (invalidate_cached_state (placeholder_filename self) w1)))"

definition TempFileResource_finalize :: "temp_file_resource \<Rightarrow> path \<Rightarrow> world \<Rightarrow> unit result" where
  "TempFileResource_finalize self write_filename w =
     (case os_rename write_filename (filename self)
             (invalidate_cached_state (filename self) w) of
        (Inl (OSError n), w1) \<Rightarrow> (Inl (OutputMissingException write_filename), w1)
      | (Inl e, w1) \<Rightarrow> (Inl e, w1)
      | (Inr u, w1) \<Rightarrow> TempFileResource_save_createtime self w1)"

definition TempFileResource_cleanup :: "temp_file_resource \<Rightarrow> world \<Rightarrow> unit result" where
  "TempFileResource_cleanup self w =
     (case TempFileResource_exists self w of
        (True, w1) \<Rightarrow>
          os_remove (filename self)
            (invalidate_cached_state (filename self)
               (logging_debug (''removing '' @ filename self) w1))
      | (False, w1) \<Rightarrow> (Inr (), w1))"

subsection \<open>\<open>TempObjResource\<close>\<close>

record temp_obj_resource = resource +
  is_input :: bool

text \<open>
  The suffix is \<open>('._i', '._o')[is_input]\<close>: a pair indexed by a boolean, so
  \<open>False\<close> selects position 0 and \<open>True\<close> position 1.
\<close>

definition TempObjResource_init ::
  "string \<Rightarrow> node \<Rightarrow> path \<Rightarrow> bool \<Rightarrow> world \<Rightarrow> temp_obj_resource \<times> world" where
  "TempObjResource_init nm nd fname inp w =
     (\<lparr>name = nm, node = nd, is_temp = True,
       filename = fname @ [''._i'', ''._o''] ! (if inp then 1 else 0), is_input = inp\<rparr>,
      invalidate_cached_state (fname @ [''._i'', ''._o''] ! (if inp then 1 else 0)) w)"

definition TempObjResource_exists :: "temp_obj_resource \<Rightarrow> world \<Rightarrow> bool \<times> world" where
  "TempObjResource_exists self w = get_exists (filename self) w"

definition TempObjResource_createtime ::
  "temp_obj_resource \<Rightarrow> world \<Rightarrow> timestamp option \<times> world" where
  "TempObjResource_createtime self w = get_createtime (filename self) w"

definition TempObjResource_touch :: "temp_obj_resource \<Rightarrow> world \<Rightarrow> unit result" where
  "TempObjResource_touch self w =
     (case TempObjResource_exists self w of
        (False, w1) \<Rightarrow> (Inl (Exception ''cannot touch missing object''), w1)
      | (True, w1) \<Rightarrow>
          (Inr (), helpers_touch (filename self) (invalidate_cached_state (filename self) w1)))"

subsection \<open>Python values\<close>

text \<open>
  \<open>obj_equal\<close> and the pickling of temp objects use the Python runtime on arbitrary
  values. The runtime is a parameter: \<open>eq_method a b\<close> is the outcome of
  \<open>a.__eq__(b)\<close>, \<open>class_of a\<close> is \<open>a.__class__\<close>, \<open>attr_dict a\<close> is
  \<open>a.__dict__\<close> (\<open>None\<close> when the attribute lookup raises \<open>AttributeError\<close>),
  \<open>dict_eq\<close> is \<open>==\<close> on two such dictionaries, \<open>raw_eq a b\<close> is \<open>a == b\<close>,
  \<open>pickle_dumps\<close> and \<open>pickle_loads\<close> are the serializer (\<open>None\<close> when the bytes
  do not unpickle) and \<open>py_None\<close> is the value \<open>None\<close>. Comparisons are taken to
  return booleans.
\<close>

datatype eq_outcome = Returned bool | NotImplemented | AttributeError

record ('v, 'c, 'd) python =
  eq_method :: "'v \<Rightarrow> 'v \<Rightarrow> eq_outcome"
  class_of :: "'v \<Rightarrow> 'c"
  attr_dict :: "'v \<Rightarrow> 'd option"
  dict_eq :: "'d \<Rightarrow> 'd \<Rightarrow> bool"
  raw_eq :: "'v \<Rightarrow> 'v \<Rightarrow> bool"
  pickle_dumps :: "'v \<Rightarrow> string"
  pickle_loads :: "string \<Rightarrow> 'v option"
  py_None :: 'v

definition obj_equal :: "('v, 'c, 'd) python \<Rightarrow> 'v \<Rightarrow> 'v \<Rightarrow> bool" where
  "obj_equal py obj1 obj2 =
     (case eq_method py obj1 obj2 of
        Returned equal \<Rightarrow> equal
      | _ \<Rightarrow>
          if class_of py obj1 \<noteq> class_of py obj2 then False
          else (case attr_dict py obj1 of
                  None \<Rightarrow> raw_eq py obj1 obj2
                | Some d1 \<Rightarrow>
                    (case attr_dict py obj2 of
                       None \<Rightarrow> raw_eq py obj1 obj2
                     | Some d2 \<Rightarrow> dict_eq py d1 d2)))"

subsection \<open>\<open>TempObjManager\<close>\<close>

text \<open>
  The attributes \<open>input\<close> and \<open>output\<close> of the class are the fields \<open>input_res\<close>
  and \<open>output_res\<close>, its \<open>name\<close> and \<open>node\<close> the fields \<open>mgr_name\<close> and
  \<open>mgr_node\<close>.
\<close>

record temp_obj_manager =
  mgr_name :: string
  mgr_node :: node
  input_res :: temp_obj_resource
  output_res :: temp_obj_resource

definition TempObjManager_init ::
  "string \<Rightarrow> node \<Rightarrow> path \<Rightarrow> world \<Rightarrow> temp_obj_manager \<times> world" where
  "TempObjManager_init nm nd fname w =
     (case TempObjResource_init nm nd fname True w of
        (i, w1) \<Rightarrow>
          (case TempObjResource_init nm nd fname False w1 of
             (out, w2) \<Rightarrow> (\<lparr>mgr_name = nm, mgr_node = nd, input_res = i, output_res = out\<rparr>, w2)))"

text \<open>\<open>open(p, 'rb')\<close> followed by reading the whole file.\<close>

definition open_rb :: "path \<Rightarrow> world \<Rightarrow> string result" where
  "open_rb p w =
     (case fs w p of
        None \<Rightarrow> (Inl (IOError ENOENT), w)
      | Some f \<Rightarrow> if p \<in> unreadable w then (Inl (IOError EACCES), w) else (Inr (content f), w))"

text \<open>\<open>with open(p, 'wb') as f: pickle.dump(obj, f)\<close>.\<close>

definition pickle_dump :: "('v, 'c, 'd) python \<Rightarrow> 'v \<Rightarrow> path \<Rightarrow> world \<Rightarrow> world" where
  "pickle_dump py obj p w =
     (let w1 = emit (Dump p) w in
      w1\<lparr>fs := (fs w1)(p \<mapsto> \<lparr>content = pickle_dumps py obj, mtime = clock w1\<rparr>)\<rparr>)"

text \<open>
  \<open>get_obj\<close>: the handler of \<open>IOError\<close> tests \<open>e.errno == 2\<close> and does \<open>pass\<close>; it
  has no other branch and does not re-raise, so after either outcome of the test the
  function falls off its end and returns \<open>None\<close>. Exceptions of \<open>pickle.load\<close> are
  not \<open>IOError\<close>s and leave the function.
\<close>

definition TempObjManager_get_obj ::
  "('v, 'c, 'd) python \<Rightarrow> temp_obj_manager \<Rightarrow> world \<Rightarrow> 'v result" where
  "TempObjManager_get_obj py self w =
     (case open_rb (filename (input_res self)) w of
        (Inr bytes, w1) \<Rightarrow>
          (case pickle_loads py bytes of
             None \<Rightarrow> (Inl UnpicklingError, w1)
           | Some v \<Rightarrow> (Inr v, w1))
      | (Inl (IOError errno), w1) \<Rightarrow>
          (if errno = 2 then (Inr (py_None py), w1) else (Inr (py_None py), w1))
      | (Inl e, w1) \<Rightarrow> (Inl e, w1))"

text \<open>
  \<open>finalize\<close>: \<open>not self.input.exists or not obj_equal(obj, self.get_obj())\<close> reads the
  input slot only when \<open>exists\<close> answered true. The two invalidations follow the
  \<open>if\<close> statement and run on both of its paths.
\<close>

definition TempObjManager_finalize ::
  "('v, 'c, 'd) python \<Rightarrow> temp_obj_manager \<Rightarrow> 'v \<Rightarrow> world \<Rightarrow> unit result" where
  "TempObjManager_finalize py self obj w =
     (let w1 = pickle_dump py obj (filename (output_res self)) w in
      case TempObjResource_exists (input_res self) w1 of
        (ex, w2) \<Rightarrow>
          (case (if \<not> ex then (Inr True, w2)
                 else (case TempObjManager_get_obj py self w2 of
                         (Inl e, w3) \<Rightarrow> (Inl e, w3)
                       | (Inr stored, w3) \<Rightarrow> (Inr (\<not> obj_equal py obj stored), w3))) of
             (Inl e, w3) \<Rightarrow> (Inl e, w3)
           | (Inr rewrite, w3) \<Rightarrow>
               (Inr (),
                invalidate_cached_state (filename (output_res self))
                  (invalidate_cached_state (filename (input_res self))
                     (if rewrite then pickle_dump py obj (filename (input_res self)) w3 else w3)))))"

text \<open>
  The three tiers as the specification words them: the value's own equality when it
  does not decline; else, for two values of the same concrete type, their attribute
  dictionaries; else raw equality. Values of one type that have no attribute dictionary
  have no fields to compare and are taken to the last tier.
\<close>

definition spec_obj_equal :: "('v, 'c, 'd) python \<Rightarrow> 'v \<Rightarrow> 'v \<Rightarrow> bool" where
  "spec_obj_equal py a b =
     (case eq_method py a b of
        Returned r \<Rightarrow> r
      | _ \<Rightarrow>
          (case (class_of py a = class_of py b, attr_dict py a, attr_dict py b) of
             (True, Some d1, Some d2) \<Rightarrow> dict_eq py d1 d2
           | _ \<Rightarrow> raw_eq py a b))"

section \<open>Filename resolution\<close>

text \<open>\<open>axis in template\<close> on strings: \<open>axis\<close> occurs in \<open>template\<close> as a substring.\<close>

fun str_contains :: "string \<Rightarrow> string \<Rightarrow> bool" where
  "str_contains [] sub = (sub = [])"
| "str_contains (c # cs) sub = (take (length sub) (c # cs) = sub \<or> str_contains cs sub)"

fun check_template :: "string \<Rightarrow> node \<Rightarrow> exn + unit" where
  "check_template template [] = Inr ()"
| "check_template template ((axis, v) # rest) =
     (if \<not> str_contains template axis
      then Inl (ValueError (''filename template '' @ template @ '' does not contain {''
                             @ axis @ ''}''))
      else check_template template rest)"

text \<open>
  \<open>template.format(**kw)\<close> for templates whose replacement fields are plain names:
  text is copied, \<open>{{\<close> and \<open>}}\<close> stand for single braces, \<open>{key}\<close> is replaced
  by \<open>kw[key]\<close> and raises \<open>KeyError(key)\<close> when \<open>key\<close> is not bound; an empty
  or numeric field is positional and raises \<open>IndexError\<close> as there are no positional
  arguments.
  Fields are rendered from left to right, so the first failing field decides.
  Conversions, format specifications and attribute or index lookups inside a field are
  not modelled. The first argument is the field being read, if any.
\<close>

fun str_format :: "string option \<Rightarrow> string \<Rightarrow> (string \<rightharpoonup> string) \<Rightarrow> exn + string" where
  "str_format None [] kw = Inr []"
| "str_format (Some key) [] kw = Inl (ValueError ''expected } before end of string'')"
| "str_format None (c # cs) kw =
     (if c = CHR ''{'' then
        (case cs of
           [] \<Rightarrow> Inl (ValueError ''Single { encountered in format string'')
         | d # ds \<Rightarrow>
             if d = CHR ''{'' then map_sum id ((#) CHR ''{'') (str_format None ds kw)
             else str_format (Some []) cs kw)
      else if c = CHR ''}'' then
        (case cs of
           [] \<Rightarrow> Inl (ValueError ''Single } encountered in format string'')
         | d # ds \<Rightarrow>
             if d = CHR ''}'' then map_sum id ((#) CHR ''}'') (str_format None ds kw)
             else Inl (ValueError ''Single } encountered in format string''))
      else map_sum id ((#) c) (str_format None cs kw))"
| "str_format (Some key) (c # cs) kw =
     (if c = CHR ''}'' then
        (if list_all (\<lambda>d. d \<in> set ''0123456789'') key then Inl IndexError
         else (case kw key of
                 None \<Rightarrow> Inl (KeyError key)
               | Some v \<Rightarrow> map_sum id ((@) v) (str_format None cs kw)))
      else str_format (Some (key @ [c])) cs kw)"

text \<open>
  The keys of the explicit filename table: the single axis value when the node has
  exactly one axis, the tuple of the axis values otherwise.
\<close>

datatype fname_key = Scalar string | Tuple "string list"

text \<open>\<open>dict(node)\<close>: a later binding of an axis replaces an earlier one.\<close>

definition dict_of_node :: "node \<Rightarrow> (string \<rightharpoonup> string)" where
  "dict_of_node nd = map_of (rev nd)"

definition resolve_user_filename ::
  "string \<Rightarrow> node \<Rightarrow> (fname_key \<rightharpoonup> string) option \<Rightarrow> string option \<Rightarrow> exn + string" where
  "resolve_user_filename nm nd fnames template =
     (let fname_key = map snd nd in
      case fnames of
        Some table \<Rightarrow>
          if length fname_key = 1
          then Inr (case table (Scalar (fname_key ! 0)) of Some f \<Rightarrow> f | None \<Rightarrow> nm)
          else Inr (case table (Tuple fname_key) of Some f \<Rightarrow> f | None \<Rightarrow> nm)
      | None \<Rightarrow>
          (case template of
             Some t \<Rightarrow>
               (case check_template t nd of
                  Inl e \<Rightarrow> Inl e
                | Inr u \<Rightarrow> str_format None t (dict_of_node nd))
           | None \<Rightarrow>
               (case check_template nm nd of
                  Inl e \<Rightarrow> Inl e
                | Inr u \<Rightarrow>
                    (case str_format None nm (dict_of_node nd) of
                       Inl (KeyError k) \<Rightarrow> Inl (ValueError (''template '' @ nm @ '' contains '' @ k))
                     | r \<Rightarrow> r))))"

section \<open>Concrete worlds and values for evaluation\<close>

definition world0 :: world where
  "world0 = \<lparr>fs = Map.empty, unreadable = {}, rename_errno = (\<lambda>src dst. None),
              cache = Map.empty, clock = 7, trace = []\<rparr>"

definition with_file :: "path \<Rightarrow> string \<Rightarrow> timestamp \<Rightarrow> world \<Rightarrow> world" where
  "with_file p c t w = w\<lparr>fs := (fs w)(p \<mapsto> \<lparr>content = c, mtime = t\<rparr>)\<rparr>"


definition tmp :: temp_file_resource where
  "tmp = fst (TempFileResource_init ''tmp'' [] ''t'' world0)"

definition mgr :: temp_obj_manager where
  "mgr = fst (TempObjManager_init ''obj'' [] ''o'' world0)"

text \<open>
  A small universe of Python 2 values: \<open>None\<close>, integers, byte strings, instances of a
  class \<open>Plain\<close> that defines no \<open>__eq__\<close>, and instances of a class \<open>Anything\<close>
  whose \<open>__eq__\<close> always returns \<open>True\<close>; instances carry one attribute \<open>v\<close>.
  \<open>None\<close>, integers and \<open>Plain\<close> instances have no \<open>__eq__\<close> attribute,
  \<open>str.__eq__\<close> declines a non-string, builtin values have no \<open>__dict__\<close>.
  \<open>==\<close> asks the left operand, then the right one, then falls back on the builtin
  comparison (identity for instances, which are distinct objects here).
\<close>

datatype pyobj = PyNone | PyInt int | PyStr string | Plain string | Anything string

fun toy_eq_method :: "pyobj \<Rightarrow> pyobj \<Rightarrow> eq_outcome" where
  "toy_eq_method (PyStr a) (PyStr b) = Returned (a = b)"
| "toy_eq_method (PyStr a) other = NotImplemented"
| "toy_eq_method (Anything a) other = Returned True"
| "toy_eq_method obj1 other = AttributeError"

fun toy_class_of :: "pyobj \<Rightarrow> string" where
  "toy_class_of PyNone = ''NoneType''"
| "toy_class_of (PyInt i) = ''int''"
| "toy_class_of (PyStr s) = ''str''"
| "toy_class_of (Plain v) = ''Plain''"
| "toy_class_of (Anything v) = ''Anything''"

fun toy_attr_dict :: "pyobj \<Rightarrow> (string \<times> string) list option" where
  "toy_attr_dict (Plain v) = Some [(''v'', v)]"
| "toy_attr_dict (Anything v) = Some [(''v'', v)]"
| "toy_attr_dict obj1 = None"

fun toy_builtin_eq :: "pyobj \<Rightarrow> pyobj \<Rightarrow> bool" where
  "toy_builtin_eq PyNone PyNone = True"
| "toy_builtin_eq (PyInt a) (PyInt b) = (a = b)"
| "toy_builtin_eq obj1 obj2 = False"

definition toy_raw_eq :: "pyobj \<Rightarrow> pyobj \<Rightarrow> bool" where
  "toy_raw_eq obj1 obj2 =
     (case toy_eq_method obj1 obj2 of
        Returned r \<Rightarrow> r
      | _ \<Rightarrow> (case toy_eq_method obj2 obj1 of
                Returned r \<Rightarrow> r
              | _ \<Rightarrow> toy_builtin_eq obj1 obj2))"

text \<open>A stand-in serializer: one tag character, then the payload (integers in unary).\<close>

fun toy_dumps :: "pyobj \<Rightarrow> string" where
  "toy_dumps PyNone = ''N''"
| "toy_dumps (PyInt i) = (if i < 0 then ''M'' else ''I'') @ replicate (nat \<bar>i\<bar>) CHR ''1''"
| "toy_dumps (PyStr s) = ''S'' @ s"
| "toy_dumps (Plain v) = ''P'' @ v"
| "toy_dumps (Anything v) = ''A'' @ v"

fun toy_loads :: "string \<Rightarrow> pyobj option" where
  "toy_loads [] = None"
| "toy_loads (c # rest) =
     (if c = CHR ''N'' \<and> rest = [] then Some PyNone
      else if c = CHR ''I'' \<and> rest = replicate (length rest) CHR ''1''
        then Some (PyInt (int (length rest)))
      else if c = CHR ''M'' \<and> rest = replicate (length rest) CHR ''1''
        then Some (PyInt (- int (length rest)))
      else if c = CHR ''S'' then Some (PyStr rest)
      else if c = CHR ''P'' then Some (Plain rest)
      else if c = CHR ''A'' then Some (Anything rest)
      else None)"

definition toy :: "(pyobj, string, (string \<times> string) list) python" where
  "toy = \<lparr>eq_method = toy_eq_method, class_of = toy_class_of, attr_dict = toy_attr_dict,
          dict_eq = (=), raw_eq = toy_raw_eq, pickle_dumps = toy_dumps,
          pickle_loads = toy_loads, py_None = PyNone\<rparr>"

section \<open>Auxiliary notions\<close>

text \<open>
  The world after a successful \<open>touch\<close> or \<open>finalize\<close> of a temporary file: the
  placeholder exists with time \<open>t\<close> and has no cache entry, and the primary file is
  either remembered as absent or has no cache entry and exists.
\<close>

definition settled :: "temp_file_resource \<Rightarrow> timestamp \<Rightarrow> world \<Rightarrow> bool" where
  "settled self t w =
     (cache w (placeholder_filename self) = None
      \<and> map_option mtime (fs w (placeholder_filename self)) = Some t
      \<and> (cache w (filename self) = Some None
          \<or> cache w (filename self) = None \<and> fs w (filename self) \<noteq> None))"

section \<open>Unfolding the environment\<close>

lemmas prim_defs = invalidate_cached_state_def emit_def snapshot_def get_exists_def
  get_createtime_def stat_def helpers_touch_def helpers_saferemove_def os_rename_def
  os_remove_def shutil_copystat_def logging_debug_def Let_def

section \<open>Committing a user output\<close>



section \<open>Creation time of a temporary file\<close>

text \<open>
  C4. \<open>TempFileResource.createtime()\<close> answers with the primary file's time when the
  primary file exists, otherwise with the placeholder's time when the placeholder
  exists, otherwise with \<open>None\<close>. Existence and times are asked of the stat cache: the
  result is composed of the answers the cache gives in the starting world, and when the
  two cache entries are coherent with the filesystem it is composed of the files
  themselves.
\<close>

theorem TempFileResource_createtime_order:
  "fst (TempFileResource_createtime self w)
     = (if fst (get_exists (filename self) w) then fst (get_createtime (filename self) w)
        else if fst (get_exists (placeholder_filename self) w)
          then fst (get_createtime (placeholder_filename self) w)
        else None)
   \<and> (coherent w (filename self) \<and> coherent w (placeholder_filename self) \<longrightarrow>
        fst (TempFileResource_createtime self w)
          = (case fs w (filename self) of
               Some f \<Rightarrow> Some (mtime f)
             | None \<Rightarrow>
                 (case fs w (placeholder_filename self) of
                    Some g \<Rightarrow> Some (mtime g)
                  | None \<Rightarrow> None)))"
  by (auto simp: TempFileResource_createtime_def prim_defs coherent_def
      split: option.splits prod.splits bool.splits if_splits)

lemma tmp_fields:
  "filename tmp = ''t''" "placeholder_filename tmp = ''t._placeholder''"
  by (simp_all add: tmp_def TempFileResource_init_def)

theorem TempFileResource_createtime_order_witness:
  "coherent (with_file ''t._placeholder'' [] 4 world0) ''t''
   \<and> coherent (with_file ''t._placeholder'' [] 4 world0) ''t._placeholder''
   \<and> fst (TempFileResource_createtime tmp (with_file ''t._placeholder'' [] 4 world0)) = Some 4
   \<and> coherent (with_file ''t'' ''data'' 9 (with_file ''t._placeholder'' [] 4 world0)) ''t''
   \<and> coherent (with_file ''t'' ''data'' 9 (with_file ''t._placeholder'' [] 4 world0))
        ''t._placeholder''
   \<and> fst (TempFileResource_createtime tmp
             (with_file ''t'' ''data'' 9 (with_file ''t._placeholder'' [] 4 world0))) = Some 9
   \<and> coherent world0 ''t'' \<and> coherent world0 ''t._placeholder''
   \<and> fst (TempFileResource_createtime tmp world0) = None"
proof -
  let ?w1 = "with_file ''t._placeholder'' [] 4 world0"
  let ?w2 = "with_file ''t'' ''data'' 9 ?w1"
  have c: "coherent ?w1 ''t''" "coherent ?w1 ''t._placeholder''"
    "coherent ?w2 ''t''" "coherent ?w2 ''t._placeholder''"
    "coherent world0 ''t''" "coherent world0 ''t._placeholder''"
    by (simp_all add: coherent_def with_file_def world0_def)
  have f: "fs ?w1 ''t'' = None" "fs ?w1 ''t._placeholder'' = Some \<lparr>content = [], mtime = 4\<rparr>"
    "fs ?w2 ''t'' = Some \<lparr>content = ''data'', mtime = 9\<rparr>"
    "fs world0 ''t'' = None" "fs world0 ''t._placeholder'' = None"
    by (simp_all add: with_file_def world0_def)
  from TempFileResource_createtime_order [of tmp ?w1] c
  have "fst (TempFileResource_createtime tmp ?w1)
          = (case fs ?w1 ''t'' of Some f \<Rightarrow> Some (mtime f)
             | None \<Rightarrow> (case fs ?w1 ''t._placeholder'' of Some g \<Rightarrow> Some (mtime g)
                        | None \<Rightarrow> None))"
    unfolding tmp_fields by blast
  then have r1: "fst (TempFileResource_createtime tmp ?w1) = Some 4"
    by (simp add: f)
  from TempFileResource_createtime_order [of tmp ?w2] c
  have "fst (TempFileResource_createtime tmp ?w2)
          = (case fs ?w2 ''t'' of Some f \<Rightarrow> Some (mtime f)
             | None \<Rightarrow> (case fs ?w2 ''t._placeholder'' of Some g \<Rightarrow> Some (mtime g)
                        | None \<Rightarrow> None))"
    unfolding tmp_fields by blast
  then have r2: "fst (TempFileResource_createtime tmp ?w2) = Some 9"
    by (simp add: f)
  from TempFileResource_createtime_order [of tmp world0] c
  have "fst (TempFileResource_createtime tmp world0)
          = (case fs world0 ''t'' of Some f \<Rightarrow> Some (mtime f)
             | None \<Rightarrow> (case fs world0 ''t._placeholder'' of Some g \<Rightarrow> Some (mtime g)
                        | None \<Rightarrow> None))"
    unfolding tmp_fields by blast
  then have r3: "fst (TempFileResource_createtime tmp world0) = None"
    by (simp add: f)
  from c r1 r2 r3 show ?thesis
    by blast
qed

section \<open>Constructors invalidate\<close>

text \<open>
  C9. Each constructor of a file-backed resource invalidates the cache entry of every
  filename it tracks (the placeholder too for \<open>TempFileResource\<close>), whatever the
  cache held before. So the first \<open>exists\<close> or \<open>createtime\<close> query on the new
  resource reads the filesystem as it is at the time of the query (\<open>F\<close>, which may
  differ from the filesystem at construction).
\<close>

theorem constructors_invalidate:
  "cache (snd (UserResource_init nm nd fname w)) fname = None
   \<and> trace (snd (UserResource_init nm nd fname w)) = trace w @ [Invalidate fname]
   \<and> fst (UserResource_exists (fst (UserResource_init nm nd fname w))
            ((snd (UserResource_init nm nd fname w))\<lparr>fs := F\<rparr>)) = (F fname \<noteq> None)
   \<and> fst (UserResource_createtime (fst (UserResource_init nm nd fname w))
            ((snd (UserResource_init nm nd fname w))\<lparr>fs := F\<rparr>)) = map_option mtime (F fname)
   \<and> cache (snd (TempFileResource_init nm nd fname w)) fname = None
   \<and> cache (snd (TempFileResource_init nm nd fname w)) (fname @ ''._placeholder'') = None
   \<and> placeholder_filename (fst (TempFileResource_init nm nd fname w)) = fname @ ''._placeholder''
   \<and> trace (snd (TempFileResource_init nm nd fname w))
        = trace w @ [Invalidate fname, Invalidate (fname @ ''._placeholder'')]
   \<and> fst (TempFileResource_exists (fst (TempFileResource_init nm nd fname w))
            ((snd (TempFileResource_init nm nd fname w))\<lparr>fs := F\<rparr>)) = (F fname \<noteq> None)
   \<and> fst (TempFileResource_createtime (fst (TempFileResource_init nm nd fname w))
            ((snd (TempFileResource_init nm nd fname w))\<lparr>fs := F\<rparr>))
        = (case F fname of
             Some f \<Rightarrow> Some (mtime f)
           | None \<Rightarrow> map_option mtime (F (fname @ ''._placeholder'')))
   \<and> cache (snd (TempObjResource_init nm nd fname inp w))
        (filename (fst (TempObjResource_init nm nd fname inp w))) = None
   \<and> trace (snd (TempObjResource_init nm nd fname inp w))
        = trace w @ [Invalidate (filename (fst (TempObjResource_init nm nd fname inp w)))]
   \<and> fst (TempObjResource_exists (fst (TempObjResource_init nm nd fname inp w))
            ((snd (TempObjResource_init nm nd fname inp w))\<lparr>fs := F\<rparr>))
        = (F (filename (fst (TempObjResource_init nm nd fname inp w))) \<noteq> None)
   \<and> fst (TempObjResource_createtime (fst (TempObjResource_init nm nd fname inp w))
            ((snd (TempObjResource_init nm nd fname inp w))\<lparr>fs := F\<rparr>))
        = map_option mtime (F (filename (fst (TempObjResource_init nm nd fname inp w))))"
  by (simp add: UserResource_init_def UserResource_exists_def UserResource_createtime_def
      TempFileResource_init_def TempFileResource_exists_def TempFileResource_createtime_def
      TempObjResource_init_def TempObjResource_exists_def TempObjResource_createtime_def
      prim_defs split: option.splits bool.splits)

section \<open>Cleaning up a temporary file\<close>

lemmas tfr_defs = TempFileResource_exists_def TempFileResource_createtime_def
  TempFileResource_touch_def TempFileResource_finalize_def TempFileResource_cleanup_def
  TempFileResource_save_createtime_def

lemma cleanup_frame:
  assumes "placeholder_filename self = filename self @ ''._placeholder''"
  shows "fs (snd (TempFileResource_cleanup self w)) (placeholder_filename self)
           = fs w (placeholder_filename self)"
  using assms
  by (simp add: tfr_defs prim_defs split: option.splits prod.splits bool.splits)

lemma cleanup_absent:
  assumes "\<not> fst (TempFileResource_exists self w)"
  shows "fst (TempFileResource_cleanup self w) = Inr ()
         \<and> fs (snd (TempFileResource_cleanup self w)) = fs w
         \<and> trace (snd (TempFileResource_cleanup self w)) = trace w"
  using assms
  by (simp add: tfr_defs prim_defs split: option.splits prod.splits bool.splits)

lemma cleanup_present:
  assumes "fst (TempFileResource_exists self w)"
  shows "trace (snd (TempFileResource_cleanup self w))
           = trace w @ [Debug (''removing '' @ filename self), Invalidate (filename self),
                        Remove (filename self)]
         \<and> fs (snd (TempFileResource_cleanup self w)) = (fs w)(filename self := None)
         \<and> cache (snd (TempFileResource_cleanup self w)) (filename self) = None
         \<and> fst (TempFileResource_cleanup self w)
             = (if fs w (filename self) = None then Inl (OSError ENOENT) else Inr ())"
  using assms
  by (auto simp add: tfr_defs prim_defs split: option.splits prod.splits bool.splits)

lemma touch_settles:
  assumes "placeholder_filename self = filename self @ ''._placeholder''"
  shows "fst (TempFileResource_touch self w) = Inr ()
         \<and> settled self (clock w) (snd (TempFileResource_touch self w))"
  using assms
  by (cases "cache w (filename self)"; cases "fs w (filename self)")
     (auto simp add: tfr_defs prim_defs settled_def split: option.splits bool.splits)

lemma finalize_settles:
  assumes "placeholder_filename self = filename self @ ''._placeholder''"
    and "fs w staging = Some sf"
    and "fst (TempFileResource_finalize self staging w) = Inr ()"
  shows "settled self (mtime sf) (snd (TempFileResource_finalize self staging w))"
  using assms
  by (cases "rename_errno w staging (filename self)")
     (auto simp add: tfr_defs prim_defs settled_def split: option.splits bool.splits)

lemma finalize_returned:
  assumes "fst (TempFileResource_finalize self staging w) = Inr ()"
  shows "fs w staging \<noteq> None"
  using assms
  by (cases "fs w staging") (auto simp add: tfr_defs prim_defs)

lemma finalize_missing:
  assumes "fs w staging = None"
  shows "fst (TempFileResource_finalize self staging w) = Inl (OutputMissingException staging)"
  using assms
  by (simp add: tfr_defs prim_defs)

lemma cleanup_settled:
  assumes "placeholder_filename self = filename self @ ''._placeholder''"
    and "settled self t w"
  shows "fst (TempFileResource_cleanup self w) = Inr ()
         \<and> fst (TempFileResource_exists self (snd (TempFileResource_cleanup self w))) = False
         \<and> fst (TempFileResource_createtime self (snd (TempFileResource_cleanup self w))) = Some t
         \<and> map_option mtime (fs (snd (TempFileResource_cleanup self w)) (placeholder_filename self))
             = Some t"
  using assms
  by (cases "cache w (filename self)"; cases "fs w (filename self)")
     (auto simp add: tfr_defs prim_defs settled_def split: option.splits bool.splits)

text \<open>
  C3. \<open>TempFileResource.cleanup()\<close> never changes the placeholder file. When
  \<open>exists\<close> answers false it changes no file and makes no call; when \<open>exists\<close>
  answers true it logs the removal, invalidates the cache entry of the primary file and
  removes the primary file, in this order. \<open>touch()\<close> never raises, and a
  \<open>finalize\<close> returns only when the staged file existed. After \<open>touch()\<close>, or
  after a \<open>finalize\<close> that returned, followed by \<open>cleanup()\<close>, the cleanup does
  not raise, \<open>exists()\<close> is false and \<open>createtime()\<close> is the time of the
  placeholder, not \<open>None\<close>: the time of the touch, respectively of the staged file.
\<close>

theorem TempFileResource_cleanup_keeps_placeholder:
  assumes ph: "placeholder_filename self = filename self @ ''._placeholder''"
  shows "fs (snd (TempFileResource_cleanup self w)) (placeholder_filename self)
           = fs w (placeholder_filename self)
     \<and> (\<not> fst (TempFileResource_exists self w) \<longrightarrow>
          fst (TempFileResource_cleanup self w) = Inr ()
          \<and> fs (snd (TempFileResource_cleanup self w)) = fs w
          \<and> trace (snd (TempFileResource_cleanup self w)) = trace w)
     \<and> (fst (TempFileResource_exists self w) \<longrightarrow>
          trace (snd (TempFileResource_cleanup self w))
            = trace w @ [Debug (''removing '' @ filename self), Invalidate (filename self),
                         Remove (filename self)]
          \<and> fs (snd (TempFileResource_cleanup self w)) = (fs w)(filename self := None)
          \<and> cache (snd (TempFileResource_cleanup self w)) (filename self) = None)
     \<and> (fst (TempFileResource_touch self w) = Inr ()
        \<and> fst (TempFileResource_cleanup self (snd (TempFileResource_touch self w))) = Inr ()
        \<and> fst (TempFileResource_exists self
                 (snd (TempFileResource_cleanup self (snd (TempFileResource_touch self w)))))
            = False
        \<and> fst (TempFileResource_createtime self
                 (snd (TempFileResource_cleanup self (snd (TempFileResource_touch self w)))))
            = Some (clock w)
        \<and> map_option mtime
             (fs (snd (TempFileResource_cleanup self (snd (TempFileResource_touch self w))))
                (placeholder_filename self))
            = Some (clock w))
     \<and> (fst (TempFileResource_finalize self staging w) = Inr () \<longrightarrow> fs w staging \<noteq> None)
     \<and> (\<forall>sf. fs w staging = Some sf
            \<and> fst (TempFileResource_finalize self staging w) = Inr () \<longrightarrow>
          fst (TempFileResource_cleanup self (snd (TempFileResource_finalize self staging w)))
              = Inr ()
          \<and> fst (TempFileResource_exists self
                   (snd (TempFileResource_cleanup self
                          (snd (TempFileResource_finalize self staging w)))))
              = False
          \<and> fst (TempFileResource_createtime self
                   (snd (TempFileResource_cleanup self
                          (snd (TempFileResource_finalize self staging w)))))
              = Some (mtime sf)
          \<and> map_option mtime
               (fs (snd (TempFileResource_cleanup self
                          (snd (TempFileResource_finalize self staging w))))
                  (placeholder_filename self))
              = Some (mtime sf))"
proof -
  note t = touch_settles [OF ph, of w]
  from t cleanup_settled [OF ph, of "clock w" "snd (TempFileResource_touch self w)"]
  have seq_touch: "fst (TempFileResource_touch self w) = Inr ()
        \<and> fst (TempFileResource_cleanup self (snd (TempFileResource_touch self w))) = Inr ()
        \<and> fst (TempFileResource_exists self
                 (snd (TempFileResource_cleanup self (snd (TempFileResource_touch self w)))))
            = False
        \<and> fst (TempFileResource_createtime self
                 (snd (TempFileResource_cleanup self (snd (TempFileResource_touch self w)))))
            = Some (clock w)
        \<and> map_option mtime
             (fs (snd (TempFileResource_cleanup self (snd (TempFileResource_touch self w))))
                (placeholder_filename self))
            = Some (clock w)"
    by blast
  have seq_fin: "fst (TempFileResource_cleanup self (snd (TempFileResource_finalize self staging w)))
              = Inr ()
          \<and> fst (TempFileResource_exists self
                   (snd (TempFileResource_cleanup self
                          (snd (TempFileResource_finalize self staging w)))))
              = False
          \<and> fst (TempFileResource_createtime self
                   (snd (TempFileResource_cleanup self
                          (snd (TempFileResource_finalize self staging w)))))
              = Some (mtime sf)
          \<and> map_option mtime
               (fs (snd (TempFileResource_cleanup self
                          (snd (TempFileResource_finalize self staging w))))
                  (placeholder_filename self))
              = Some (mtime sf)"
    if "fs w staging = Some sf" "fst (TempFileResource_finalize self staging w) = Inr ()" for sf
    using finalize_settles [OF ph that]
      cleanup_settled [OF ph, of "mtime sf" "snd (TempFileResource_finalize self staging w)"]
    by blast
  from cleanup_frame [OF ph, of w] cleanup_absent [of self w] cleanup_present [of self w]
    seq_touch seq_fin finalize_returned [of self staging w]
  show ?thesis
    by blast
qed

theorem TempFileResource_cleanup_keeps_placeholder_witness:
  "placeholder_filename tmp = filename tmp @ ''._placeholder''
   \<and> fst (TempFileResource_exists tmp
            (snd (TempFileResource_cleanup tmp
                   (snd (TempFileResource_touch tmp (with_file ''t'' ''data'' 3 world0))))))
       = False
   \<and> fst (TempFileResource_createtime tmp
            (snd (TempFileResource_cleanup tmp
                   (snd (TempFileResource_touch tmp (with_file ''t'' ''data'' 3 world0))))))
       = Some 7
   \<and> fs (with_file ''t'' ''data'' 3 world0) ''t'' = Some \<lparr>content = ''data'', mtime = 3\<rparr>
   \<and> fst (TempFileResource_finalize tmp ''t'' (with_file ''t'' ''data'' 3 world0)) = Inr ()
   \<and> fst (TempFileResource_finalize tmp ''s'' (with_file ''s'' ''data'' 3 world0)) = Inr ()
   \<and> fst (TempFileResource_exists tmp
            (snd (TempFileResource_cleanup tmp
                   (snd (TempFileResource_finalize tmp ''t''
                          (with_file ''t'' ''data'' 3 world0))))))
       = False
   \<and> fst (TempFileResource_createtime tmp
            (snd (TempFileResource_cleanup tmp
                   (snd (TempFileResource_finalize tmp ''s''
                          (with_file ''s'' ''data'' 3 world0))))))
       = Some 3"
proof -
  have ph: "placeholder_filename tmp = filename tmp @ ''._placeholder''"
    by (simp add: tmp_fields)
  have c: "clock (with_file ''t'' ''data'' 3 world0) = 7"
    by (simp add: with_file_def world0_def)
  have f: "fs (with_file ''t'' ''data'' 3 world0) ''t'' = Some \<lparr>content = ''data'', mtime = 3\<rparr>"
    "fs (with_file ''s'' ''data'' 3 world0) ''s'' = Some \<lparr>content = ''data'', mtime = 3\<rparr>"
    by (simp_all add: with_file_def world0_def)
  have m: "mtime \<lparr>content = ''data'', mtime = 3\<rparr> = 3"
    by simp
  have ret: "fst (TempFileResource_finalize tmp ''t'' (with_file ''t'' ''data'' 3 world0)) = Inr ()"
    "fst (TempFileResource_finalize tmp ''s'' (with_file ''s'' ''data'' 3 world0)) = Inr ()"
    by (simp_all add: tfr_defs prim_defs tmp_fields with_file_def world0_def)
  note A = TempFileResource_cleanup_keeps_placeholder
    [OF ph, of "with_file ''t'' ''data'' 3 world0" "''t''"]
  note B = TempFileResource_cleanup_keeps_placeholder
    [OF ph, of "with_file ''s'' ''data'' 3 world0" "''s''"]
  from A have a1: "fst (TempFileResource_exists tmp
            (snd (TempFileResource_cleanup tmp
                   (snd (TempFileResource_touch tmp (with_file ''t'' ''data'' 3 world0))))))
       = False"
    by blast
  from A have a2: "fst (TempFileResource_createtime tmp
            (snd (TempFileResource_cleanup tmp
                   (snd (TempFileResource_touch tmp (with_file ''t'' ''data'' 3 world0))))))
       = Some (clock (with_file ''t'' ''data'' 3 world0))"
    by blast
  from A f(1) ret(1) have a3: "fst (TempFileResource_exists tmp
            (snd (TempFileResource_cleanup tmp
                   (snd (TempFileResource_finalize tmp ''t''
                          (with_file ''t'' ''data'' 3 world0))))))
       = False"
    by blast
  from B f(2) ret(2) have b: "fst (TempFileResource_createtime tmp
            (snd (TempFileResource_cleanup tmp
                   (snd (TempFileResource_finalize tmp ''s''
                          (with_file ''s'' ''data'' 3 world0))))))
       = Some (mtime \<lparr>content = ''data'', mtime = 3\<rparr>)"
    by blast
  from ph a1 a2 a3 b f(1) ret show ?thesis
    unfolding c m by blast
qed

section \<open>Errors of filename resolution\<close>

text \<open>
  C5. The claim has \<open>resolve_user_filename\<close> raise its configuration error, a
  \<open>ValueError\<close>, exactly when the template or name omits an axis of the node or
  references an axis the node does not bind. The code at the claim's own example, the
  template \<open>{sample}/{chunk}.txt\<close> with a node that binds only \<open>sample\<close>: passed as
  the template, \<open>str.format\<close>'s \<open>KeyError('chunk')\<close> leaves the function as it is;
  passed as the name, the same \<open>KeyError\<close> is caught and replaced by
  \<open>ValueError('template ... contains chunk')\<close>. And a template that only contains the
  axis name as text (\<open>samples.txt\<close>) has no field for the axis and raises nothing.
\<close>

theorem resolve_user_filename_template_KeyError:
  "resolve_user_filename ''out'' [(''sample'', ''s1'')] None (Some ''{sample}/{chunk}.txt'')
     = Inl (KeyError ''chunk'')
   \<and> resolve_user_filename ''{sample}/{chunk}.txt'' [(''sample'', ''s1'')] None None
     = Inl (ValueError ''template {sample}/{chunk}.txt contains chunk'')
   \<and> resolve_user_filename ''out'' [(''sample'', ''s1'')] None (Some ''samples.txt'')
     = Inr ''samples.txt''"
  by (simp add: resolve_user_filename_def dict_of_node_def)

section \<open>Reading a temporary object\<close>

lemma mgr_fields:
  "filename (input_res mgr) = ''o._o''" "filename (output_res mgr) = ''o._i''"
  by (simp_all add: mgr_def TempObjManager_init_def TempObjResource_init_def)

text \<open>
  C6. The claim has every I/O failure of \<open>get_obj\<close> other than a missing input slot
  reach the caller. The code with an input slot that exists and may not be read:
  \<open>open\<close> raises \<open>IOError\<close> with errno 13, and \<open>get_obj\<close> returns \<open>None\<close>.
\<close>

theorem get_obj_swallows_permission_error:
  "open_rb (filename (input_res mgr))
      ((with_file ''o._o'' (toy_dumps (PyStr ''v'')) 3 world0)\<lparr>unreadable := {''o._o''}\<rparr>)
     = (Inl (IOError 13),
        (with_file ''o._o'' (toy_dumps (PyStr ''v'')) 3 world0)\<lparr>unreadable := {''o._o''}\<rparr>)
   \<and> fst (TempObjManager_get_obj toy mgr
            ((with_file ''o._o'' (toy_dumps (PyStr ''v'')) 3 world0)\<lparr>unreadable := {''o._o''}\<rparr>))
     = Inr PyNone"
  by (simp add: mgr_fields TempObjManager_get_obj_def open_rb_def with_file_def world0_def
      EACCES_def ENOENT_def toy_def)

section \<open>Sidecar filenames\<close>

text \<open>
  C7, as claimed: the placeholder is the filename followed by \<open>.placeholder\<close>, the input
  slot the filename followed by \<open>._i\<close> and the output slot the filename followed by
  \<open>._o\<close>. None of the three holds for the filenames \<open>t\<close> and \<open>o\<close>.
\<close>

theorem sidecar_suffix_counterexample:
  "placeholder_filename (fst (TempFileResource_init ''tmp'' [] ''t'' world0)) \<noteq> ''t.placeholder''
   \<and> filename (input_res (fst (TempObjManager_init ''obj'' [] ''o'' world0))) \<noteq> ''o._i''
   \<and> filename (output_res (fst (TempObjManager_init ''obj'' [] ''o'' world0))) \<noteq> ''o._o''"
  by (simp add: TempFileResource_init_def TempObjManager_init_def TempObjResource_init_def)

text \<open>
  C7, as the code has it: the placeholder of a \<open>TempFileResource\<close> is its filename
  followed by \<open>._placeholder\<close>; the filename of a \<open>TempObjResource\<close> is the given
  filename followed by \<open>._i\<close> or by \<open>._o\<close>, and the two slots of a
  \<open>TempObjManager\<close> carry one of the two suffixes each.
\<close>

theorem sidecar_suffixes:
  "filename (fst (TempFileResource_init nm nd fname w)) = fname
   \<and> placeholder_filename (fst (TempFileResource_init nm nd fname w)) = fname @ ''._placeholder''
   \<and> filename (fst (TempObjResource_init nm nd fname inp w)) \<in> {fname @ ''._i'', fname @ ''._o''}
   \<and> {filename (input_res (fst (TempObjManager_init nm nd fname w))),
       filename (output_res (fst (TempObjManager_init nm nd fname w)))}
      = {fname @ ''._i'', fname @ ''._o''}
   \<and> filename (input_res (fst (TempObjManager_init nm nd fname w)))
      \<noteq> filename (output_res (fst (TempObjManager_init nm nd fname w)))"
  by (auto simp add: TempFileResource_init_def TempObjManager_init_def TempObjResource_init_def)

section \<open>Equality of temporary objects\<close>

text \<open>
  C8, as claimed: when the value's own equality does not answer and the two values are
  of different types, raw equality decides. A \<open>Plain\<close> instance has no \<open>__eq__\<close>,
  an \<open>Anything\<close> instance equals everything, so \<open>==\<close> between them is true by the
  reflected comparison and the three tiers of the specification answer true;
  \<open>obj_equal\<close> answers false.
\<close>

theorem obj_equal_counterexample:
  "eq_method toy (Plain ''a'') (Anything ''a'') = AttributeError
   \<and> class_of toy (Plain ''a'') \<noteq> class_of toy (Anything ''a'')
   \<and> raw_eq toy (Plain ''a'') (Anything ''a'') = True
   \<and> spec_obj_equal toy (Plain ''a'') (Anything ''a'') = True
   \<and> obj_equal toy (Plain ''a'') (Anything ''a'') = False"
  by (simp add: obj_equal_def spec_obj_equal_def toy_def toy_raw_eq_def)

text \<open>
  C8, as the code has it: an answer of \<open>obj1.__eq__(obj2)\<close>, true or false, is the
  result; when \<open>__eq__\<close> declines (\<open>NotImplemented\<close>) or is missing, values of
  different classes are unequal, values of one class that both have an attribute
  dictionary are compared by their dictionaries, and values of one class without
  attribute dictionaries by raw equality. A declined comparison is thus never taken for
  the answer false. \<open>obj_equal\<close> agrees with the three tiers of the specification
  whenever \<open>__eq__\<close> answers or the classes are the same.
\<close>

theorem obj_equal_tiers:
  "(\<forall>r. eq_method py a b = Returned r \<longrightarrow> obj_equal py a b = r)
   \<and> (eq_method py a b = NotImplemented \<or> eq_method py a b = AttributeError \<longrightarrow>
        obj_equal py a b
          = (if class_of py a \<noteq> class_of py b then False
             else (case (attr_dict py a, attr_dict py b) of
                     (Some d1, Some d2) \<Rightarrow> dict_eq py d1 d2
                   | _ \<Rightarrow> raw_eq py a b)))
   \<and> (class_of py a = class_of py b \<or> (\<exists>r. eq_method py a b = Returned r) \<longrightarrow>
        obj_equal py a b = spec_obj_equal py a b)"
  by (auto simp add: obj_equal_def spec_obj_equal_def split: eq_outcome.splits option.splits)

theorem obj_equal_tiers_witness:
  "eq_method toy (PyStr ''a'') (PyStr ''b'') = Returned False
   \<and> obj_equal toy (PyStr ''a'') (PyStr ''b'') = False
   \<and> eq_method toy (PyStr ''a'') (PyInt 1) = NotImplemented
   \<and> obj_equal toy (PyStr ''a'') (PyInt 1) = False
   \<and> eq_method toy (Plain ''a'') (Plain ''a'') = AttributeError
   \<and> class_of toy (Plain ''a'') = class_of toy (Plain ''a'')
   \<and> obj_equal toy (Plain ''a'') (Plain ''a'') = True
   \<and> spec_obj_equal toy (Plain ''a'') (Plain ''a'') = True
   \<and> eq_method toy (PyInt 1) (PyInt 1) = AttributeError
   \<and> obj_equal toy (PyInt 1) (PyInt 1) = True"
proof -
  have e: "eq_method toy (PyStr ''a'') (PyStr ''b'') = Returned False"
    "eq_method toy (PyStr ''a'') (PyInt 1) = NotImplemented"
    "eq_method toy (Plain ''a'') (Plain ''a'') = AttributeError"
    "eq_method toy (PyInt 1) (PyInt 1) = AttributeError"
    by (simp_all add: toy_def)
  have c: "class_of toy (PyStr ''a'') \<noteq> class_of toy (PyInt 1)"
    "class_of toy (Plain ''a'') = class_of toy (Plain ''a'')"
    "class_of toy (PyInt 1) = class_of toy (PyInt 1)"
    by (simp_all add: toy_def)
  have d: "attr_dict toy (Plain ''a'') = Some [(''v'', ''a'')]" "attr_dict toy (PyInt 1) = None"
    "dict_eq toy [(''v'', ''a'')] [(''v'', ''a'')] = True" "raw_eq toy (PyInt 1) (PyInt 1) = True"
    by (simp_all add: toy_def toy_raw_eq_def)
  from obj_equal_tiers [of toy "PyStr ''a''" "PyStr ''b''"] e(1)
  have r1: "obj_equal toy (PyStr ''a'') (PyStr ''b'') = False"
    by blast
  from obj_equal_tiers [of toy "PyStr ''a''" "PyInt 1"] e(2) c(1)
  have r2: "obj_equal toy (PyStr ''a'') (PyInt 1) = False"
    by simp
  from obj_equal_tiers [of toy "Plain ''a''" "Plain ''a''"] e(3)
  have r3: "obj_equal toy (Plain ''a'') (Plain ''a'') = True"
    by (simp add: d)
  from obj_equal_tiers [of toy "Plain ''a''" "Plain ''a''"] r3
  have r4: "spec_obj_equal toy (Plain ''a'') (Plain ''a'') = True"
    by simp
  from obj_equal_tiers [of toy "PyInt 1" "PyInt 1"] e(4)
  have r5: "obj_equal toy (PyInt 1) (PyInt 1) = True"
    by (simp add: d)
  from e c r1 r2 r3 r4 r5 show ?thesis
    by blast
qed

section \<open>Committing a temporary object\<close>

lemmas tom_defs = TempObjManager_finalize_def TempObjManager_get_obj_def
  TempObjResource_exists_def open_rb_def pickle_dump_def





section \<open>The absent sentinel\<close>

lemma get_obj_absent:
  "fs w (filename (input_res self)) = None \<Longrightarrow>
     fst (TempObjManager_get_obj py self w) = Inr (py_None py)"
  by (simp add: TempObjManager_get_obj_def open_rb_def ENOENT_def)

lemma get_obj_readable:
  "fs w (filename (input_res self)) = Some f \<Longrightarrow> filename (input_res self) \<notin> unreadable w \<Longrightarrow>
     fst (TempObjManager_get_obj py self w)
       = (case pickle_loads py (content f) of Some v \<Rightarrow> Inr v | None \<Rightarrow> Inl UnpicklingError)"
  by (simp add: TempObjManager_get_obj_def open_rb_def split: option.splits)

lemma finalize_unreadable:
  "unreadable (snd (TempObjManager_finalize py self v w)) = unreadable w"
  by (cases "cache w (filename (input_res self))")
     (auto simp add: tom_defs prim_defs ENOENT_def EACCES_def
        split: option.splits bool.splits)

lemma finalize_wrote_input:
  assumes "trace (snd (TempObjManager_finalize py self v w))
          = trace w @ [Dump (filename (output_res self)), Dump (filename (input_res self)),
                       Invalidate (filename (input_res self)),
                       Invalidate (filename (output_res self))]"
  shows "fst (TempObjManager_finalize py self v w) = Inr ()
        \<and> fs (snd (TempObjManager_finalize py self v w)) (filename (input_res self))
            = Some \<lparr>content = pickle_dumps py v, mtime = clock w\<rparr>"
  using assms
  by (cases "cache w (filename (input_res self))")
     (auto simp add: tom_defs prim_defs ENOENT_def EACCES_def
        split: option.splits bool.splits if_splits)

text \<open>
  C10, as claimed: after any \<open>finalize(v)\<close> that wrote the input slot, \<open>get_obj\<close>
  returns the value. An input slot that may be written and not read: \<open>finalize\<close> of
  the string \<open>u\<close> makes both dumps and the slot holds the pickled \<open>u\<close>, which
  unpickles to \<open>u\<close>, and \<open>get_obj\<close> returns \<open>None\<close>.
\<close>

theorem get_obj_round_trip_counterexample:
  "trace (snd (TempObjManager_finalize toy mgr (PyStr ''u'')
                 ((with_file ''o._o'' (toy_dumps (PyStr ''v'')) 3 world0)
                    \<lparr>unreadable := {''o._o''}\<rparr>)))
     = [Dump (filename (output_res mgr)), Dump (filename (input_res mgr)),
        Invalidate (filename (input_res mgr)), Invalidate (filename (output_res mgr))]
   \<and> fs (snd (TempObjManager_finalize toy mgr (PyStr ''u'')
                 ((with_file ''o._o'' (toy_dumps (PyStr ''v'')) 3 world0)
                    \<lparr>unreadable := {''o._o''}\<rparr>)))
        (filename (input_res mgr))
       = Some \<lparr>content = pickle_dumps toy (PyStr ''u''), mtime = 7\<rparr>
   \<and> pickle_loads toy (pickle_dumps toy (PyStr ''u'')) = Some (PyStr ''u'')
   \<and> fst (TempObjManager_get_obj toy mgr
            (snd (TempObjManager_finalize toy mgr (PyStr ''u'')
                   ((with_file ''o._o'' (toy_dumps (PyStr ''v'')) 3 world0)
                      \<lparr>unreadable := {''o._o''}\<rparr>))))
       = Inr PyNone"
  by (simp add: mgr_fields tom_defs prim_defs obj_equal_def toy_def
      with_file_def world0_def ENOENT_def EACCES_def)

text \<open>
  C10, as the code has it. \<open>get_obj\<close> returns \<open>None\<close> when the input slot is
  absent, and also when a readable input slot holds the serialized \<open>None\<close> (given that
  \<open>None\<close> survives pickling): the two cases cannot be told apart. After a
  \<open>finalize(v)\<close> that wrote the input slot (its calls are the two dumps and the two
  invalidations), with an input slot that can be read, \<open>get_obj\<close> returns what
  unpickling the pickled \<open>v\<close> gives.
\<close>

theorem get_obj_None_ambiguous:
  "(fs w (filename (input_res self)) = None \<longrightarrow>
      fst (TempObjManager_get_obj py self w) = Inr (py_None py))
   \<and> (\<forall>f. fs w (filename (input_res self)) = Some f
          \<and> filename (input_res self) \<notin> unreadable w
          \<and> content f = pickle_dumps py (py_None py)
          \<and> pickle_loads py (pickle_dumps py (py_None py)) = Some (py_None py) \<longrightarrow>
        fst (TempObjManager_get_obj py self w) = Inr (py_None py))
   \<and> (trace (snd (TempObjManager_finalize py self v w))
          = trace w @ [Dump (filename (output_res self)), Dump (filename (input_res self)),
                       Invalidate (filename (input_res self)),
                       Invalidate (filename (output_res self))]
        \<and> filename (input_res self) \<notin> unreadable w \<longrightarrow>
        fst (TempObjManager_finalize py self v w) = Inr ()
        \<and> fs (snd (TempObjManager_finalize py self v w)) (filename (input_res self))
            = Some \<lparr>content = pickle_dumps py v, mtime = clock w\<rparr>
        \<and> fst (TempObjManager_get_obj py self (snd (TempObjManager_finalize py self v w)))
            = (case pickle_loads py (pickle_dumps py v) of
                 Some v' \<Rightarrow> Inr v'
               | None \<Rightarrow> Inl UnpicklingError))"
proof (intro conjI impI allI)
  assume "fs w (filename (input_res self)) = None"
  then show "fst (TempObjManager_get_obj py self w) = Inr (py_None py)"
    by (rule get_obj_absent)
next
  fix f
  assume a: "fs w (filename (input_res self)) = Some f
          \<and> filename (input_res self) \<notin> unreadable w
          \<and> content f = pickle_dumps py (py_None py)
          \<and> pickle_loads py (pickle_dumps py (py_None py)) = Some (py_None py)"
  then have "fst (TempObjManager_get_obj py self w)
       = (case pickle_loads py (content f) of Some v \<Rightarrow> Inr v | None \<Rightarrow> Inl UnpicklingError)"
    using get_obj_readable by blast
  with a show "fst (TempObjManager_get_obj py self w) = Inr (py_None py)"
    by simp
next
  assume a: "trace (snd (TempObjManager_finalize py self v w))
          = trace w @ [Dump (filename (output_res self)), Dump (filename (input_res self)),
                       Invalidate (filename (input_res self)),
                       Invalidate (filename (output_res self))]
        \<and> filename (input_res self) \<notin> unreadable w"
  then have "trace (snd (TempObjManager_finalize py self v w))
          = trace w @ [Dump (filename (output_res self)), Dump (filename (input_res self)),
                       Invalidate (filename (input_res self)),
                       Invalidate (filename (output_res self))]"
    by (rule conjunct1)
  then have w: "fst (TempObjManager_finalize py self v w) = Inr ()
        \<and> fs (snd (TempObjManager_finalize py self v w)) (filename (input_res self))
            = Some \<lparr>content = pickle_dumps py v, mtime = clock w\<rparr>"
    by (rule finalize_wrote_input)
  from w show "fst (TempObjManager_finalize py self v w) = Inr ()"
    by blast
  from w show "fs (snd (TempObjManager_finalize py self v w)) (filename (input_res self))
            = Some \<lparr>content = pickle_dumps py v, mtime = clock w\<rparr>"
    by blast
  from a have "filename (input_res self) \<notin> unreadable (snd (TempObjManager_finalize py self v w))"
    by (simp add: finalize_unreadable)
  with w have "fst (TempObjManager_get_obj py self (snd (TempObjManager_finalize py self v w)))
       = (case pickle_loads py (content \<lparr>content = pickle_dumps py v, mtime = clock w\<rparr>) of
            Some v' \<Rightarrow> Inr v' | None \<Rightarrow> Inl UnpicklingError)"
    using get_obj_readable by blast
  then show "fst (TempObjManager_get_obj py self (snd (TempObjManager_finalize py self v w)))
            = (case pickle_loads py (pickle_dumps py v) of
                 Some v' \<Rightarrow> Inr v'
               | None \<Rightarrow> Inl UnpicklingError)"
    by simp
qed

theorem get_obj_None_ambiguous_witness:
  "fs world0 (filename (input_res mgr)) = None
   \<and> fst (TempObjManager_get_obj toy mgr world0) = Inr PyNone
   \<and> trace (snd (TempObjManager_finalize toy mgr PyNone world0))
       = trace world0 @ [Dump (filename (output_res mgr)), Dump (filename (input_res mgr)),
                         Invalidate (filename (input_res mgr)),
                         Invalidate (filename (output_res mgr))]
   \<and> filename (input_res mgr) \<notin> unreadable world0
   \<and> fst (TempObjManager_get_obj toy mgr (snd (TempObjManager_finalize toy mgr PyNone world0)))
       = Inr PyNone
   \<and> trace (snd (TempObjManager_finalize toy mgr (PyStr ''v'') world0))
       = trace world0 @ [Dump (filename (output_res mgr)), Dump (filename (input_res mgr)),
                         Invalidate (filename (input_res mgr)),
                         Invalidate (filename (output_res mgr))]
   \<and> fst (TempObjManager_get_obj toy mgr
            (snd (TempObjManager_finalize toy mgr (PyStr ''v'') world0)))
       = Inr (PyStr ''v'')"
proof -
  have a: "fs world0 (filename (input_res mgr)) = None"
    by (simp add: world0_def)
  have rd: "filename (input_res mgr) \<notin> unreadable world0"
    by (simp add: world0_def)
  have n: "py_None toy = PyNone"
    by (simp add: toy_def)
  have t: "trace (snd (TempObjManager_finalize toy mgr obj world0))
       = trace world0 @ [Dump (filename (output_res mgr)), Dump (filename (input_res mgr)),
                         Invalidate (filename (input_res mgr)),
                         Invalidate (filename (output_res mgr))]" for obj
    by (simp add: tom_defs prim_defs world0_def mgr_fields)
  have l: "pickle_loads toy (pickle_dumps toy PyNone) = Some PyNone"
    "pickle_loads toy (pickle_dumps toy (PyStr ''v'')) = Some (PyStr ''v'')"
    by (simp_all add: toy_def)
  from get_obj_None_ambiguous [of world0 mgr toy] a
  have r1: "fst (TempObjManager_get_obj toy mgr world0) = Inr PyNone"
    unfolding n by blast
  from get_obj_None_ambiguous [of world0 mgr toy PyNone] t [of PyNone] rd
  have "fst (TempObjManager_get_obj toy mgr (snd (TempObjManager_finalize toy mgr PyNone world0)))
       = (case pickle_loads toy (pickle_dumps toy PyNone) of
            Some v' \<Rightarrow> Inr v' | None \<Rightarrow> Inl UnpicklingError)"
    by blast
  then have r2: "fst (TempObjManager_get_obj toy mgr
      (snd (TempObjManager_finalize toy mgr PyNone world0))) = Inr PyNone"
    by (simp add: l)
  from get_obj_None_ambiguous [of world0 mgr toy "PyStr ''v''"] t [of "PyStr ''v''"] rd
  have "fst (TempObjManager_get_obj toy mgr
              (snd (TempObjManager_finalize toy mgr (PyStr ''v'') world0)))
       = (case pickle_loads toy (pickle_dumps toy (PyStr ''v'')) of
            Some v' \<Rightarrow> Inr v' | None \<Rightarrow> Inl UnpicklingError)"
    by blast
  then have r3: "fst (TempObjManager_get_obj toy mgr
      (snd (TempObjManager_finalize toy mgr (PyStr ''v'') world0))) = Inr (PyStr ''v'')"
    by (simp add: l)
  from a rd r1 r2 r3 t [of PyNone] t [of "PyStr ''v''"] show ?thesis
    by blast
qed

end
